theory Spec2Isabelle
  imports Main
begin

section \<open>The URL preview service\<close>

text \<open>
  A shallow embedding of \<^verbatim>\<open>UrlPreviewService\<close> (wrap, handle, fetchSummary,
  fetchSummaryFromProxy). The handler is asynchronous and effectful in the source; here
  every effect it has on the outside world is written into an explicit state (the preview
  cache and a trace of effects), every exception is a value \<open>Inl e\<close>, and the collaborators
  the class is constructed with (configuration, instance metadata, the summary library, the
  HTTP client, the query-string builder, the image proxy signer) are fields of an
  environment record, so that the theorems hold for every behaviour they may have.
\<close>

subsection \<open>Request and reply\<close>

text \<open>
  A query-string parameter as the HTTP framework hands it over: missing, given once, or
  repeated (an array). The declared type of the source says \<^verbatim>\<open>string\<close>, the checks at
  the top of \<^verbatim>\<open>handle\<close> deal with the other two.
\<close>

datatype query_value = Absent | Single string | Repeated "string list"

record Querystring =
  query_url :: query_value
  query_lang :: query_value

record FastifyReply =
  statusCode :: nat
  headers :: "string \<rightharpoonup> string"

text \<open>\<^verbatim>\<open>reply.code(n)\<close> and \<^verbatim>\<open>reply.header(name, value)\<close>.\<close>

definition reply_code :: "nat \<Rightarrow> FastifyReply \<Rightarrow> FastifyReply" where
  "reply_code n reply = reply\<lparr>statusCode := n\<rparr>"

definition reply_header :: "string \<Rightarrow> string \<Rightarrow> FastifyReply \<Rightarrow> FastifyReply" where
  "reply_header name v reply = reply\<lparr>headers := (headers reply)(name \<mapsto> v)\<rparr>"

subsection \<open>Summaries\<close>

text \<open>
  The summary record of the summary library, with the fields the service reads or writes.
  \<open>None\<close> is JavaScript's \<^verbatim>\<open>null\<close> or \<^verbatim>\<open>undefined\<close>. The library's type makes the player
  descriptor mandatory, but the proxy path casts parsed JSON to that type unchecked, so the
  descriptor itself may be missing at run time: \<open>player s = None\<close>.
\<close>

record Player =
  player_url :: "string option"
  player_width :: "int option"
  player_height :: "int option"
  player_allow :: "string list"

record SummalyResult =
  title :: "string option"
  icon :: "string option"
  description :: "string option"
  thumbnail :: "string option"
  sitename :: "string option"
  player :: "Player option"
  sensitive :: bool
  summary_url :: string

text \<open>
  Modelled from the spec: the error class \<^verbatim>\<open>ApiError\<close> of \<^verbatim>\<open>@/server/api/error.js\<close> is
  not among the sources; the spec gives the envelope as
  \<^verbatim>\<open>{error: {message, code, id}}\<close>, so an \<open>ApiError\<close> is these three strings.
\<close>

record ApiError =
  err_message :: string
  err_code :: string
  err_id :: string

text \<open>What \<^verbatim>\<open>handle\<close> resolves to: \<^verbatim>\<open>undefined\<close>, an error envelope, or a summary.\<close>

datatype body = NoBody | ErrorBody ApiError | SummaryBody SummalyResult

text \<open>Thrown values, with the text that \<^verbatim>\<open>`${err}`\<close> gives them.\<close>

datatype exn = Error string | TypeError string | Thrown string

fun exn_text :: "exn \<Rightarrow> string" where
  "exn_text (Error m) = ''Error: '' @ m"
| "exn_text (TypeError m) = ''TypeError: '' @ m"
| "exn_text (Thrown m) = m"

subsection \<open>Configuration and collaborators\<close>

text \<open>
  Modelled from the spec: the declarations of \<^verbatim>\<open>Config\<close> (\<^verbatim>\<open>@/config.js\<close>) and
  \<^verbatim>\<open>MiMeta\<close> (\<^verbatim>\<open>@/models/Meta.js\<close>) are not among the sources. The spec lists what
  the configuration source exposes (feature flag, optional proxy URL, optional user agent,
  timeout, content-length limit and flag, image proxy endpoint, key and salt, media proxy
  base path, outbound proxy); the records hold these under the names the service reads
  them by, optional where the source tests or defaults them.
\<close>

record Config =
  imgproxyURL :: "string option"
  imgproxyKey :: "string option"
  imgproxySalt :: "string option"
  mediaProxy :: string
  proxy :: "string option"

record MiMeta =
  urlPreviewEnabled :: bool
  urlPreviewSummaryProxyUrl :: "string option"
  urlPreviewUserAgent :: "string option"
  urlPreviewTimeout :: int
  urlPreviewMaximumContentLength :: int
  urlPreviewRequireContentLength :: bool

text \<open>JavaScript truthiness of an optional string: present and not empty.\<close>

fun truthy :: "string option \<Rightarrow> bool" where
  "truthy None = False"
| "truthy (Some s) = (s \<noteq> [])"

text \<open>\<^verbatim>\<open>a ?? b\<close> on an optional string.\<close>

fun nullish_or :: "string option \<Rightarrow> string \<Rightarrow> string" where
  "nullish_or None d = d"
| "nullish_or (Some s) d = s"

text \<open>The text a template literal gives an optional string; \<open>absent\<close> is
  \<^verbatim>\<open>undefined\<close> or \<^verbatim>\<open>null\<close>, whichever the value can be.\<close>

fun template_text :: "string option \<Rightarrow> string \<Rightarrow> string" where
  "template_text None absent = absent"
| "template_text (Some s) absent = s"

text \<open>\<^verbatim>\<open>s.startsWith(p)\<close>.\<close>

definition startsWith :: "string \<Rightarrow> string \<Rightarrow> bool" where
  "startsWith s p = (take (length p) s = p)"

text \<open>\<^verbatim>\<open>url.match(/^https?:\/\//)\<close> read as a truth value: \<^verbatim>\<open>http\<close>, an optional
  \<^verbatim>\<open>s\<close>, then \<^verbatim>\<open>://\<close>, anchored at the start of the string.\<close>

definition match_http :: "string \<Rightarrow> bool" where
  "match_http url =
     (take 4 url = ''http'' \<and>
      (take 3 (drop 4 url) = ''://'' \<or> take 4 (drop 4 url) = ''s://''))"

text \<open>The image proxy request that \<^verbatim>\<open>wrap\<close> hands to \<^verbatim>\<open>generateImageUrl\<close>.\<close>

record imgproxy_options =
  opt_format :: string
  opt_height :: nat
  opt_width :: nat
  opt_enlarge :: bool
  opt_gravity_type :: string
  opt_auto_rotate :: bool

record imgproxy_request =
  req_endpoint :: "string option"
  req_key :: "string option"
  req_salt :: "string option"
  req_url :: string
  req_options :: imgproxy_options

text \<open>A value of the object given to the query-string builder \<^verbatim>\<open>query\<close>.\<close>

datatype param = PStr string | PNum int | PBool bool | PUndefined

datatype agent = Agent string

record agents =
  http :: agent
  https :: agent

record summaly_options =
  followRedirects :: bool
  opt_lang :: string
  opt_agent :: "agents option"
  userAgent :: "string option"
  operationTimeout :: int
  contentLengthLimit :: int
  contentLengthRequired :: bool

text \<open>
  The environment of the service. \<open>meta\<close> is what \<^verbatim>\<open>metaService.fetch()\<close> resolves to.
  \<open>query\<close> (\<^verbatim>\<open>@/misc/prelude/url.js\<close>), \<open>generateImageUrl\<close>, \<open>summaly\<close> and \<open>getJson\<close>
  are code outside the sources and are parameters: the two fetchers answer with a summary
  or throw.
\<close>

record env =
  config :: Config
  meta :: MiMeta
  httpAgent :: agent
  httpsAgent :: agent
  query :: "(string \<times> param) list \<Rightarrow> string"
  generateImageUrl :: "imgproxy_request \<Rightarrow> string"
  summaly :: "string \<Rightarrow> summaly_options \<Rightarrow> exn + SummalyResult"
  getJson :: "string \<Rightarrow> exn + SummalyResult"

subsection \<open>State: the preview cache and the trace of effects\<close>

datatype effect =
    MetaFetch
  | CacheGet string
  | CacheSet string SummalyResult
  | SummalyCall string summaly_options
  | GetJsonCall string
  | LogInfo string
  | LogSucc string
  | LogWarn string

text \<open>
  Modelled from the spec: the class \<^verbatim>\<open>RedisKVCache\<close> of \<^verbatim>\<open>@/misc/cache.js\<close> is not among
  the sources. The spec describes it as a key-value store with \<^verbatim>\<open>get(key)\<close> answering the
  value or absent and \<^verbatim>\<open>set(key, value)\<close>, which never computes a missing value on a read;
  it is a map from keys to summaries, and its two operations do not fail. Expiry is not
  modelled.
\<close>

record state =
  previewCache :: "string \<rightharpoonup> SummalyResult"
  effects :: "effect list"

definition emit :: "effect \<Rightarrow> state \<Rightarrow> state" where
  "emit e st = st\<lparr>effects := effects st @ [e]\<rparr>"

definition cache_get :: "string \<Rightarrow> state \<Rightarrow> SummalyResult option \<times> state" where
  "cache_get k st = (previewCache st k, emit (CacheGet k) st)"

definition cache_set :: "string \<Rightarrow> SummalyResult \<Rightarrow> state \<Rightarrow> state" where
  "cache_set k v st = emit (CacheSet k v) (st\<lparr>previewCache := (previewCache st)(k \<mapsto> v)\<rparr>)"

text \<open>What a call did: the effects added to the trace between two states.\<close>

definition performed :: "state \<Rightarrow> state \<Rightarrow> effect list" where
  "performed st st' = drop (length (effects st)) (effects st')"

text \<open>The three kinds of effect that the properties below speak of.\<close>

fun is_cache_read :: "effect \<Rightarrow> bool" where
  "is_cache_read (CacheGet k) = True"
| "is_cache_read e = False"

fun is_cache_write :: "effect \<Rightarrow> bool" where
  "is_cache_write (CacheSet k v) = True"
| "is_cache_write e = False"

fun is_outbound_fetch :: "effect \<Rightarrow> bool" where
  "is_outbound_fetch (SummalyCall u opts) = True"
| "is_outbound_fetch (GetJsonCall u) = True"
| "is_outbound_fetch e = False"

subsection \<open>wrap\<close>

definition wrap :: "env \<Rightarrow> string option \<Rightarrow> string option" where
  "wrap env url =
     (if truthy (imgproxyURL (config env)) then
        (case url of
           Some u \<Rightarrow>
             (if match_http u then
                Some (generateImageUrl env
                  \<lparr>req_endpoint = imgproxyURL (config env),
                   req_key = imgproxyKey (config env),
                   req_salt = imgproxySalt (config env),
                   req_url = u,
                   req_options =
                     \<lparr>opt_format = ''webp'', opt_height = 200, opt_width = 0,
                      opt_enlarge = True, opt_gravity_type = ''sm'',
                      opt_auto_rotate = True\<rparr>\<rparr>)
              else Some u)
         | None \<Rightarrow> None)
      else
        (case url of
           Some u \<Rightarrow>
             (if match_http u then
                Some (mediaProxy (config env) @ ''/preview.webp?'' @
                      query env [(''url'', PStr u), (''preview'', PStr ''1'')])
              else Some u)
         | None \<Rightarrow> None))"

subsection \<open>fetchSummary and fetchSummaryFromProxy\<close>

text \<open>
  Both functions read no state: each answers with the outbound call it makes and with what
  that call resolves to (a summary) or rejects with (an exception).
\<close>

fun opt_param :: "string option \<Rightarrow> param" where
  "opt_param None = PUndefined"
| "opt_param (Some s) = PStr s"

definition fetchSummary ::
  "env \<Rightarrow> string \<Rightarrow> MiMeta \<Rightarrow> string option \<Rightarrow> effect \<times> (exn + SummalyResult)" where
  "fetchSummary env url m lang =
     (let agent = (if truthy (proxy (config env))
                   then Some \<lparr>http = httpAgent env, https = httpsAgent env\<rparr>
                   else None);
          opts = \<lparr>followRedirects = False,
                  opt_lang = nullish_or lang ''ja-JP'',
                  opt_agent = agent,
                  userAgent = urlPreviewUserAgent m,
                  operationTimeout = urlPreviewTimeout m,
                  contentLengthLimit = urlPreviewMaximumContentLength m,
                  contentLengthRequired = urlPreviewRequireContentLength m\<rparr>
      in (SummalyCall url opts, summaly env url opts))"

definition fetchSummaryFromProxy ::
  "env \<Rightarrow> string \<Rightarrow> MiMeta \<Rightarrow> string option \<Rightarrow> effect \<times> (exn + SummalyResult)" where
  "fetchSummaryFromProxy env url m lang =
     (let queryStr = query env
            [(''url'', PStr url),
             (''lang'', PStr (nullish_or lang ''ja-JP'')),
             (''userAgent'', opt_param (urlPreviewUserAgent m)),
             (''operationTimeout'', PNum (urlPreviewTimeout m)),
             (''contentLengthLimit'', PNum (urlPreviewMaximumContentLength m)),
             (''contentLengthRequired'', PBool (urlPreviewRequireContentLength m))];
          target = template_text (urlPreviewSummaryProxyUrl m) ''null'' @ ''?'' @ queryStr
      in (GetJsonCall target, getJson env target))"

subsection \<open>handle\<close>

text \<open>Line 116: \<^verbatim>\<open>const key = `${url}@${lang}`\<close>, where \<^verbatim>\<open>lang\<close> may be
  \<^verbatim>\<open>undefined\<close>.\<close>

definition cache_key :: "string \<Rightarrow> string option \<Rightarrow> string" where
  "cache_key url lang = url @ ''@'' @ template_text lang ''undefined''"

definition url_preview_disabled :: ApiError where
  "url_preview_disabled =
     \<lparr>err_message = ''URL preview is disabled'',
      err_code = ''URL_PREVIEW_DISABLED'',
      err_id = ''58b36e13-d2f5-0323-b0c6-76aa9dabefb8''\<rparr>"

definition url_preview_failed :: ApiError where
  "url_preview_failed =
     \<lparr>err_message = ''Failed to get preview'',
      err_code = ''URL_PREVIEW_FAILED'',
      err_id = ''09d01cb5-53b9-4856-82e5-38a50c290a3b''\<rparr>"

text \<open>Lines 131 to 133: the proxy when one is configured, the summary library otherwise.\<close>

definition fetch_preview ::
  "env \<Rightarrow> string \<Rightarrow> string option \<Rightarrow> effect \<times> (exn + SummalyResult)" where
  "fetch_preview env url lang =
     (if truthy (urlPreviewSummaryProxyUrl (meta env))
      then fetchSummaryFromProxy env url (meta env) lang
      else fetchSummary env url (meta env) lang)"

text \<open>
  Lines 137 to 143: the two scheme checks. Reading \<^verbatim>\<open>summary.player.url\<close> of a summary
  without a player descriptor throws a \<^verbatim>\<open>TypeError\<close>; a player URL that is \<^verbatim>\<open>null\<close> or
  empty is falsy and passes.
\<close>

definition validate :: "SummalyResult \<Rightarrow> exn + unit" where
  "validate summary =
     (if \<not> (startsWith (summary_url summary) ''http://'' \<or>
             startsWith (summary_url summary) ''https://'')
      then Inl (Error ''unsupported schema included'')
      else
        (case player summary of
           None \<Rightarrow> Inl (TypeError ''Cannot read properties of undefined (reading 'url')'')
         | Some p \<Rightarrow>
             (case player_url p of
                None \<Rightarrow> Inr ()
              | Some pu \<Rightarrow>
                  if pu \<noteq> [] \<and> \<not> (startsWith pu ''http://'' \<or> startsWith pu ''https://'')
                  then Inl (Error ''unsupported schema included'')
                  else Inr ())))"

text \<open>Lines 145 and 146.\<close>

definition rewrite :: "env \<Rightarrow> SummalyResult \<Rightarrow> SummalyResult" where
  "rewrite env summary =
     summary\<lparr>icon := wrap env (icon summary), thumbnail := wrap env (thumbnail summary)\<rparr>"

text \<open>
  The body of the \<^verbatim>\<open>try\<close> block (lines 131 to 148): the fetch, the checks, the
  rewriting of icon and thumbnail, and the cache write. It answers with the summary that
  \<^verbatim>\<open>handle\<close> returns or with what was thrown, and with the state at that point.
\<close>

definition try_preview ::
  "env \<Rightarrow> string \<Rightarrow> string option \<Rightarrow> string \<Rightarrow> state \<Rightarrow> (exn + SummalyResult) \<times> state" where
  "try_preview env url lang key st =
     (case fetch_preview env url lang of
        (call, Inl err) \<Rightarrow> (Inl err, emit call st)
      | (call, Inr summary) \<Rightarrow>
          (let st1 = emit (LogSucc (''Got preview of '' @ url @ '': '' @
                             template_text (title summary) ''null'')) (emit call st)
           in case validate summary of
                Inl err \<Rightarrow> (Inl err, st1)
              | Inr ok \<Rightarrow>
                  (let summary' = rewrite env summary
                   in (Inr summary', cache_set key summary' st1))))"

text \<open>Lines 126 to 166: the cache miss, with the \<^verbatim>\<open>catch\<close> block.\<close>

definition handle_miss ::
  "env \<Rightarrow> string \<Rightarrow> string option \<Rightarrow> string \<Rightarrow> FastifyReply \<Rightarrow> state
     \<Rightarrow> body \<times> FastifyReply \<times> state" where
  "handle_miss env url lang key reply st =
     (let st1 = emit (LogInfo (if truthy (urlPreviewSummaryProxyUrl (meta env))
                               then ''(Proxy) Getting preview of '' @ key @ '' ...''
                               else ''Getting preview of '' @ key @ '' ...'')) st
      in case try_preview env url lang key st1 of
           (Inr summary, st2) \<Rightarrow>
             (SummaryBody summary,
              reply_header ''Cache-Control'' ''max-age=604800, immutable'' reply,
              st2)
         | (Inl err, st2) \<Rightarrow>
             (ErrorBody url_preview_failed,
              reply_header ''Cache-Control'' ''max-age=86400, immutable'' (reply_code 422 reply),
              emit (LogWarn (''Failed to get preview of '' @ url @ '': '' @ exn_text err)) st2))"

text \<open>Lines 103 to 124: the feature flag and the cache lookup.\<close>

definition handle_checked ::
  "env \<Rightarrow> string \<Rightarrow> string option \<Rightarrow> FastifyReply \<Rightarrow> state \<Rightarrow> body \<times> FastifyReply \<times> state" where
  "handle_checked env url lang reply st =
     (let st1 = emit MetaFetch st
      in if \<not> urlPreviewEnabled (meta env)
         then (ErrorBody url_preview_disabled, reply_code 403 reply, st1)
         else
           (let key = cache_key url lang
            in case cache_get key st1 of
                 (Some cached, st2) \<Rightarrow>
                   (SummaryBody cached,
                    reply_header ''Cache-Control'' ''max-age=604800, immutable'' reply,
                    emit (LogInfo (''Returning cache preview of '' @ key)) st2)
               | (None, st2) \<Rightarrow> handle_miss env url lang key reply st2))"

text \<open>Lines 91 to 101: the two checks on the shape of the query, then the rest.\<close>

definition handle ::
  "env \<Rightarrow> Querystring \<Rightarrow> FastifyReply \<Rightarrow> state \<Rightarrow> body \<times> FastifyReply \<times> state" where
  "handle env q reply st =
     (case query_url q of
        Single url \<Rightarrow>
          (case query_lang q of
             Repeated ls \<Rightarrow> (NoBody, reply_code 400 reply, st)
           | Absent \<Rightarrow> handle_checked env url None reply st
           | Single lang \<Rightarrow> handle_checked env url (Some lang) reply st)
      | Absent \<Rightarrow> (NoBody, reply_code 400 reply, st)
      | Repeated us \<Rightarrow> (NoBody, reply_code 400 reply, st))"

text \<open>The query of a well-formed request for \<open>url\<close> with an optional language tag.\<close>

definition preview_query :: "string \<Rightarrow> string option \<Rightarrow> Querystring" where
  "preview_query url lang =
     \<lparr>query_url = Single url,
      query_lang = (case lang of None \<Rightarrow> Absent | Some l \<Rightarrow> Single l)\<rparr>"

subsection \<open>A concrete instance\<close>

text \<open>
  An instance on which the theorems below are exercised: no image proxy, no summary
  proxy, and a summary library that answers every request with the same summary. Its
  query-string builder joins the string parameters without escaping them.
\<close>

fun demo_param :: "param \<Rightarrow> string" where
  "demo_param (PStr s) = s"
| "demo_param v = []"

fun demo_query :: "(string \<times> param) list \<Rightarrow> string" where
  "demo_query [] = []"
| "demo_query [(k, v)] = k @ ''='' @ demo_param v"
| "demo_query ((k, v) # ps) = k @ ''='' @ demo_param v @ ''&'' @ demo_query ps"

definition demo_summary :: SummalyResult where
  "demo_summary =
     \<lparr>title = Some ''Example'',
      icon = Some ''https://example.com/favicon.ico'',
      description = None,
      thumbnail = Some ''/thumb.png'',
      sitename = Some ''example.com'',
      player = Some \<lparr>player_url = None, player_width = None, player_height = None,
                     player_allow = []\<rparr>,
      sensitive = False,
      summary_url = ''https://example.com/''\<rparr>"

definition demo_env :: env where
  "demo_env =
     \<lparr>config = \<lparr>imgproxyURL = None, imgproxyKey = None, imgproxySalt = None,
                 mediaProxy = ''https://media.example/proxy'', proxy = None\<rparr>,
      meta = \<lparr>urlPreviewEnabled = True, urlPreviewSummaryProxyUrl = None,
               urlPreviewUserAgent = None, urlPreviewTimeout = 10000,
               urlPreviewMaximumContentLength = 10485760,
               urlPreviewRequireContentLength = False\<rparr>,
      httpAgent = Agent ''http'',
      httpsAgent = Agent ''https'',
      query = demo_query,
      generateImageUrl = (\<lambda>r. ''https://img.example/'' @ req_url r),
      summaly = (\<lambda>u opts. Inr demo_summary),
      getJson = (\<lambda>u. Inl (Thrown ''no proxy''))\<rparr>"

definition demo_reply :: FastifyReply where
  "demo_reply = \<lparr>statusCode = 200, headers = Map.empty\<rparr>"

definition demo_state :: state where
  "demo_state = \<lparr>previewCache = Map.empty, effects = []\<rparr>"

section \<open>Properties\<close>

subsection \<open>Auxiliary facts\<close>

lemma take_7_split: "take 7 u = take 4 u @ take 3 (drop 4 u)"
  using take_add [of 4 3 u] by simp

lemma take_8_split: "take 8 u = take 4 u @ take 4 (drop 4 u)"
  using take_add [of 4 4 u] by simp

text \<open>The regular expression of \<^verbatim>\<open>wrap\<close> and the two \<^verbatim>\<open>startsWith\<close> tests of
  \<^verbatim>\<open>handle\<close> accept the same strings.\<close>

lemma match_http_startsWith:
  "match_http u \<longleftrightarrow> startsWith u ''http://'' \<or> startsWith u ''https://''"
proof -
  have a: "take 7 u = ''http://'' \<longleftrightarrow> take 4 u = ''http'' \<and> take 3 (drop 4 u) = ''://''"
  proof
    assume h: "take 7 u = ''http://''"
    then have "take 4 (take 7 u) = ''http''" by simp
    then have "take 4 u = ''http''" by simp
    with h show "take 4 u = ''http'' \<and> take 3 (drop 4 u) = ''://''"
      by (simp add: take_7_split)
  next
    assume "take 4 u = ''http'' \<and> take 3 (drop 4 u) = ''://''"
    then show "take 7 u = ''http://''" by (simp add: take_7_split)
  qed
  have b: "take 8 u = ''https://'' \<longleftrightarrow> take 4 u = ''http'' \<and> take 4 (drop 4 u) = ''s://''"
  proof
    assume h: "take 8 u = ''https://''"
    then have "take 4 (take 8 u) = ''http''" by simp
    then have "take 4 u = ''http''" by simp
    with h show "take 4 u = ''http'' \<and> take 4 (drop 4 u) = ''s://''"
      by (simp add: take_8_split)
  next
    assume "take 4 u = ''http'' \<and> take 4 (drop 4 u) = ''s://''"
    then show "take 8 u = ''https://''" by (simp add: take_8_split)
  qed
  have c: "startsWith u ''http://'' \<longleftrightarrow> take 7 u = ''http://''"
    by (simp add: startsWith_def eval_nat_numeral)
  have d: "startsWith u ''https://'' \<longleftrightarrow> take 8 u = ''https://''"
    by (simp add: startsWith_def eval_nat_numeral)
  show ?thesis
    unfolding match_http_def c d a b by blast
qed

lemma wrap_None: "wrap env None = None"
  by (simp add: wrap_def)

lemma wrap_not_http: "\<not> match_http u \<Longrightarrow> wrap env (Some u) = Some u"
  by (simp add: wrap_def)

lemma wrap_media_proxy:
  "match_http u \<Longrightarrow> \<not> truthy (imgproxyURL (config env)) \<Longrightarrow>
   wrap env (Some u) =
     Some (mediaProxy (config env) @ ''/preview.webp?'' @
           query env [(''url'', PStr u), (''preview'', PStr ''1'')])"
  by (simp add: wrap_def)

text \<open>A separator that occurs in neither right-hand part splits a string in one way only.\<close>

lemma split_at_last_separator:
  assumes "c \<notin> set l1" and "c \<notin> set l2" and "u1 @ c # l1 = u2 @ c # l2"
  shows "u1 = u2 \<and> l1 = l2"
  using assms by (auto simp: append_eq_append_conv2 Cons_eq_append_conv append_eq_Cons_conv)

lemma handle_preview_query:
  "handle env (preview_query url lang) reply st = handle_checked env url lang reply st"
  by (cases lang) (simp_all add: handle_def preview_query_def)

lemma performed_self: "performed st st = []"
  by (simp add: performed_def)

lemma performed_append: "effects st' = effects st @ es \<Longrightarrow> performed st st' = es"
  by (simp add: performed_def)

text \<open>The fetch of the handler makes exactly one outbound call.\<close>

lemma fetch_preview_is_outbound: "is_outbound_fetch (fst (fetch_preview env url lang))"
  by (simp add: fetch_preview_def fetchSummary_def fetchSummaryFromProxy_def Let_def)

lemma outbound_not_cache: "is_outbound_fetch x \<Longrightarrow> \<not> is_cache_write x \<and> \<not> is_cache_read x"
  by (cases x) simp_all

text \<open>The \<^verbatim>\<open>try\<close> block throws exactly when the fetch or the validation throws.\<close>

lemma try_preview_throws:
  "fst (try_preview env url lang key st) = Inl e \<longleftrightarrow>
     snd (fetch_preview env url lang) = Inl e \<or>
     (\<exists>s. snd (fetch_preview env url lang) = Inr s \<and> validate s = Inl e)"
  by (auto simp: try_preview_def Let_def split: prod.splits sum.splits)

text \<open>Validation throws on a canonical URL or a non-empty player URL that is not
  http(s), and on a missing player descriptor.\<close>

lemma validate_bad_scheme:
  assumes "\<not> (startsWith (summary_url s) ''http://'' \<or> startsWith (summary_url s) ''https://'') \<or>
           (\<exists>p pu. player s = Some p \<and> player_url p = Some pu \<and> pu \<noteq> [] \<and>
              \<not> (startsWith pu ''http://'' \<or> startsWith pu ''https://''))"
  shows "\<exists>e. validate s = Inl e"
  using assms by (auto simp: validate_def)

lemma validate_no_player: "player s = None \<Longrightarrow> \<exists>e. validate s = Inl e"
  by (simp add: validate_def)

text \<open>The answer of the handler when the fetch or the validation throws on a cache miss:
  the \<^verbatim>\<open>catch\<close> block.\<close>

lemma handle_caught:
  assumes "urlPreviewEnabled (meta env)"
    and "previewCache st (cache_key url lang) = None"
    and "snd (fetch_preview env url lang) = Inl e \<or>
         (\<exists>s. snd (fetch_preview env url lang) = Inr s \<and> validate s = Inl e)"
  shows "case handle env (preview_query url lang) reply st of
           (b, r, st') \<Rightarrow>
             b = ErrorBody url_preview_failed \<and>
             r = reply\<lparr>statusCode := 422,
                       headers := (headers reply)
                         (''Cache-Control'' \<mapsto> ''max-age=86400, immutable'')\<rparr> \<and>
             previewCache st' = previewCache st \<and>
             \<not> list_ex is_cache_write (performed st st') \<and>
             last (effects st') =
               LogWarn (''Failed to get preview of '' @ url @ '': '' @ exn_text e)"
  using assms fetch_preview_is_outbound [of env url lang]
  by (auto simp: handle_preview_query handle_checked_def handle_miss_def try_preview_def
        cache_get_def emit_def performed_def reply_code_def reply_header_def Let_def
        split: prod.splits sum.splits dest: outbound_not_cache)

text \<open>The answer of the handler when fetch and validation succeed on a cache miss.\<close>

lemma handle_fetched:
  assumes "urlPreviewEnabled (meta env)"
    and "previewCache st (cache_key url lang) = None"
    and "snd (fetch_preview env url lang) = Inr s"
    and "validate s = Inr ()"
  shows "case handle env (preview_query url lang) reply st of
           (b, r, st') \<Rightarrow>
             b = SummaryBody (rewrite env s) \<and>
             r = reply\<lparr>headers := (headers reply)
                         (''Cache-Control'' \<mapsto> ''max-age=604800, immutable'')\<rparr> \<and>
             previewCache st' = (previewCache st)(cache_key url lang \<mapsto> rewrite env s)"
  using assms
  by (auto simp: handle_preview_query handle_checked_def handle_miss_def try_preview_def
        cache_get_def cache_set_def emit_def reply_header_def Let_def
        split: prod.splits sum.splits)

subsection \<open>Malformed queries\<close>

text \<open>
  C8. A request whose \<^verbatim>\<open>url\<close> parameter is missing or repeated, and a request whose
  \<^verbatim>\<open>lang\<close> parameter is repeated, is answered with status 400 and no body, and the state
  is returned as it was: the cache is neither read nor written and nothing is fetched
  (the trace of effects is unchanged).
\<close>

theorem handle_malformed_query:
  assumes "(\<forall>u. query_url q \<noteq> Single u) \<or> (\<exists>ls. query_lang q = Repeated ls)"
  shows "handle env q reply st = (NoBody, reply\<lparr>statusCode := 400\<rparr>, st) \<and>
         performed st (snd (snd (handle env q reply st))) = []"
  using assms
  by (auto simp: handle_def reply_code_def performed_def split: query_value.splits)

theorem handle_malformed_query_witness:
  "handle demo_env \<lparr>query_url = Absent, query_lang = Absent\<rparr> demo_reply demo_state =
     (NoBody, demo_reply\<lparr>statusCode := 400\<rparr>, demo_state) \<and>
   handle demo_env \<lparr>query_url = Repeated [''a'', ''b''], query_lang = Absent\<rparr>
       demo_reply demo_state =
     (NoBody, demo_reply\<lparr>statusCode := 400\<rparr>, demo_state) \<and>
   handle demo_env \<lparr>query_url = Single ''https://example.com/'',
                     query_lang = Repeated [''en'', ''ja'']\<rparr> demo_reply demo_state =
     (NoBody, demo_reply\<lparr>statusCode := 400\<rparr>, demo_state)"
  using handle_malformed_query
          [where q = "\<lparr>query_url = Absent, query_lang = Absent\<rparr>"
             and env = demo_env and reply = demo_reply and st = demo_state]
        handle_malformed_query
          [where q = "\<lparr>query_url = Repeated [''a'', ''b''], query_lang = Absent\<rparr>"
             and env = demo_env and reply = demo_reply and st = demo_state]
        handle_malformed_query
          [where q = "\<lparr>query_url = Single ''https://example.com/'',
                        query_lang = Repeated [''en'', ''ja'']\<rparr>"
             and env = demo_env and reply = demo_reply and st = demo_state]
  by simp

subsection \<open>The feature flag\<close>

text \<open>
  C3. When \<^verbatim>\<open>urlPreviewEnabled\<close> is false, every well-formed request is answered with
  status 403 and the error envelope with code \<^verbatim>\<open>URL_PREVIEW_DISABLED\<close> and its fixed
  identifier; the only effect is the read of the instance metadata, so the cache is
  neither read nor written and nothing is fetched.
\<close>

theorem handle_disabled:
  assumes "\<not> urlPreviewEnabled (meta env)"
  shows "case handle env (preview_query url lang) reply st of
           (b, r, st') \<Rightarrow>
             b = ErrorBody \<lparr>err_message = ''URL preview is disabled'',
                            err_code = ''URL_PREVIEW_DISABLED'',
                            err_id = ''58b36e13-d2f5-0323-b0c6-76aa9dabefb8''\<rparr> \<and>
             r = reply\<lparr>statusCode := 403\<rparr> \<and>
             previewCache st' = previewCache st \<and>
             performed st st' = [MetaFetch] \<and>
             \<not> list_ex is_cache_read (performed st st') \<and>
             \<not> list_ex is_cache_write (performed st st') \<and>
             \<not> list_ex is_outbound_fetch (performed st st')"
  using assms
  by (simp add: handle_preview_query handle_checked_def url_preview_disabled_def
        reply_code_def emit_def performed_def Let_def)

theorem handle_disabled_witness:
  "\<not> urlPreviewEnabled (meta (demo_env\<lparr>meta := meta demo_env\<lparr>urlPreviewEnabled := False\<rparr>\<rparr>)) \<and>
   handle (demo_env\<lparr>meta := meta demo_env\<lparr>urlPreviewEnabled := False\<rparr>\<rparr>)
       (preview_query ''https://example.com/'' (Some ''en'')) demo_reply demo_state =
     (ErrorBody \<lparr>err_message = ''URL preview is disabled'',
                 err_code = ''URL_PREVIEW_DISABLED'',
                 err_id = ''58b36e13-d2f5-0323-b0c6-76aa9dabefb8''\<rparr>,
      demo_reply\<lparr>statusCode := 403\<rparr>,
      demo_state\<lparr>effects := [MetaFetch]\<rparr>)"
  using handle_disabled
          [where env = "demo_env\<lparr>meta := meta demo_env\<lparr>urlPreviewEnabled := False\<rparr>\<rparr>"
             and url = "''https://example.com/''" and lang = "Some ''en''"
             and reply = demo_reply and st = demo_state]
  by (auto simp: demo_env_def demo_state_def performed_def)

subsection \<open>Cache hits\<close>

text \<open>
  C2. With the feature enabled, a well-formed request whose cache key is present in the
  cache is answered with the stored summary as it is; the reply differs from the one
  passed in only by the header \<^verbatim>\<open>Cache-Control: max-age=604800, immutable\<close>; the cache
  is unchanged, and the effects are the metadata read, the cache read and a log line:
  neither the summary library nor the proxy is called.
\<close>

theorem handle_cache_hit:
  assumes "urlPreviewEnabled (meta env)"
    and "previewCache st (cache_key url lang) = Some cached"
  shows "case handle env (preview_query url lang) reply st of
           (b, r, st') \<Rightarrow>
             b = SummaryBody cached \<and>
             r = reply\<lparr>headers := (headers reply)
                         (''Cache-Control'' \<mapsto> ''max-age=604800, immutable'')\<rparr> \<and>
             previewCache st' = previewCache st \<and>
             performed st st' =
               [MetaFetch, CacheGet (cache_key url lang),
                LogInfo (''Returning cache preview of '' @ cache_key url lang)] \<and>
             \<not> list_ex is_outbound_fetch (performed st st')"
  using assms
  by (simp add: handle_preview_query handle_checked_def cache_get_def reply_header_def
        emit_def performed_def Let_def)

theorem handle_cache_hit_witness:
  "urlPreviewEnabled (meta demo_env) \<and>
   previewCache (demo_state\<lparr>previewCache := [''https://example.com/@en'' \<mapsto> demo_summary]\<rparr>)
     (cache_key ''https://example.com/'' (Some ''en'')) = Some demo_summary \<and>
   fst (handle demo_env (preview_query ''https://example.com/'' (Some ''en'')) demo_reply
          (demo_state\<lparr>previewCache := [''https://example.com/@en'' \<mapsto> demo_summary]\<rparr>)) =
     SummaryBody demo_summary \<and>
   headers (fst (snd (handle demo_env (preview_query ''https://example.com/'' (Some ''en''))
          demo_reply
          (demo_state\<lparr>previewCache := [''https://example.com/@en'' \<mapsto> demo_summary]\<rparr>))))
     ''Cache-Control'' = Some ''max-age=604800, immutable'' \<and>
   effects (snd (snd (handle demo_env (preview_query ''https://example.com/'' (Some ''en''))
          demo_reply
          (demo_state\<lparr>previewCache := [''https://example.com/@en'' \<mapsto> demo_summary]\<rparr>)))) =
     [MetaFetch, CacheGet ''https://example.com/@en'',
      LogInfo ''Returning cache preview of https://example.com/@en'']"
  using handle_cache_hit
          [where env = demo_env and url = "''https://example.com/''" and lang = "Some ''en''"
             and cached = demo_summary and reply = demo_reply
             and st = "demo_state\<lparr>previewCache := [''https://example.com/@en'' \<mapsto> demo_summary]\<rparr>"]
  by (auto simp: demo_env_def demo_state_def cache_key_def performed_def split: prod.splits)

subsection \<open>Failures\<close>

text \<open>
  C4. With the feature enabled and on a cache miss, whatever exception \<open>e\<close> the fetch
  (through the summary library or through the proxy) or the validation throws, the handler
  answers with one and the same failure response: status 422, the header
  \<^verbatim>\<open>Cache-Control: max-age=86400, immutable\<close>, and the envelope with code
  \<^verbatim>\<open>URL_PREVIEW_FAILED\<close> and its fixed identifier. The body is a constant, so nothing of
  \<open>e\<close> is in it; \<open>e\<close> goes to the warning log only.
\<close>

theorem handle_failure_response:
  assumes "urlPreviewEnabled (meta env)"
    and "previewCache st (cache_key url lang) = None"
    and "snd (fetch_preview env url lang) = Inl e \<or>
         (\<exists>s. snd (fetch_preview env url lang) = Inr s \<and> validate s = Inl e)"
  shows "case handle env (preview_query url lang) reply st of
           (b, r, st') \<Rightarrow>
             b = ErrorBody \<lparr>err_message = ''Failed to get preview'',
                            err_code = ''URL_PREVIEW_FAILED'',
                            err_id = ''09d01cb5-53b9-4856-82e5-38a50c290a3b''\<rparr> \<and>
             r = reply\<lparr>statusCode := 422,
                       headers := (headers reply)
                         (''Cache-Control'' \<mapsto> ''max-age=86400, immutable'')\<rparr> \<and>
             last (effects st') =
               LogWarn (''Failed to get preview of '' @ url @ '': '' @ exn_text e)"
  using handle_caught [OF assms, of reply]
  by (auto simp: url_preview_failed_def split: prod.splits)

theorem handle_failure_response_witness:
  "urlPreviewEnabled (meta demo_env) \<and>
   previewCache demo_state (cache_key ''https://example.com/'' None) = None \<and>
   snd (fetch_preview (demo_env\<lparr>summaly := \<lambda>u opts. Inl (Thrown ''timeout of 10000ms exceeded'')\<rparr>)
          ''https://example.com/'' None) = Inl (Thrown ''timeout of 10000ms exceeded'') \<and>
   fst (handle (demo_env\<lparr>summaly := \<lambda>u opts. Inl (Thrown ''timeout of 10000ms exceeded'')\<rparr>)
          (preview_query ''https://example.com/'' None) demo_reply demo_state) =
     ErrorBody \<lparr>err_message = ''Failed to get preview'',
                err_code = ''URL_PREVIEW_FAILED'',
                err_id = ''09d01cb5-53b9-4856-82e5-38a50c290a3b''\<rparr> \<and>
   fst (snd (handle (demo_env\<lparr>summaly := \<lambda>u opts. Inl (Thrown ''timeout of 10000ms exceeded'')\<rparr>)
          (preview_query ''https://example.com/'' None) demo_reply demo_state)) =
     \<lparr>statusCode = 422,
      headers = [''Cache-Control'' \<mapsto> ''max-age=86400, immutable'']\<rparr> \<and>
   last (effects (snd (snd (handle
          (demo_env\<lparr>summaly := \<lambda>u opts. Inl (Thrown ''timeout of 10000ms exceeded'')\<rparr>)
          (preview_query ''https://example.com/'' None) demo_reply demo_state)))) =
     LogWarn ''Failed to get preview of https://example.com/: timeout of 10000ms exceeded''"
  using handle_failure_response
          [where env = "demo_env\<lparr>summaly := \<lambda>u opts. Inl (Thrown ''timeout of 10000ms exceeded'')\<rparr>"
             and url = "''https://example.com/''" and lang = None
             and e = "Thrown ''timeout of 10000ms exceeded''"
             and reply = demo_reply and st = demo_state]
  by (auto simp: demo_env_def demo_state_def demo_reply_def cache_key_def fetch_preview_def
        fetchSummary_def Let_def split: prod.splits)

subsection \<open>Scheme validation\<close>

text \<open>
  C1. With the feature enabled and on a cache miss, when the fetch answers with a summary
  whose canonical URL starts with neither \<^verbatim>\<open>http://\<close> nor \<^verbatim>\<open>https://\<close>, or whose
  player URL is present (neither \<^verbatim>\<open>null\<close> nor empty, the test of the source) and starts
  with neither, the handler answers with the 422 failure response and the cache is left
  as it was: no write to the cache is among the effects.
\<close>

theorem handle_rejects_non_http:
  assumes "urlPreviewEnabled (meta env)"
    and "previewCache st (cache_key url lang) = None"
    and "snd (fetch_preview env url lang) = Inr s"
    and "\<not> (startsWith (summary_url s) ''http://'' \<or> startsWith (summary_url s) ''https://'') \<or>
         (\<exists>p pu. player s = Some p \<and> player_url p = Some pu \<and> pu \<noteq> [] \<and>
            \<not> (startsWith pu ''http://'' \<or> startsWith pu ''https://''))"
  shows "case handle env (preview_query url lang) reply st of
           (b, r, st') \<Rightarrow>
             b = ErrorBody \<lparr>err_message = ''Failed to get preview'',
                            err_code = ''URL_PREVIEW_FAILED'',
                            err_id = ''09d01cb5-53b9-4856-82e5-38a50c290a3b''\<rparr> \<and>
             r = reply\<lparr>statusCode := 422,
                       headers := (headers reply)
                         (''Cache-Control'' \<mapsto> ''max-age=86400, immutable'')\<rparr> \<and>
             previewCache st' = previewCache st \<and>
             previewCache st' (cache_key url lang) = None \<and>
             \<not> list_ex is_cache_write (performed st st')"
proof -
  from validate_bad_scheme [OF assms(4)] obtain e where "validate s = Inl e" ..
  with assms(3)
  have "snd (fetch_preview env url lang) = Inl e \<or>
        (\<exists>s. snd (fetch_preview env url lang) = Inr s \<and> validate s = Inl e)"
    by blast
  from handle_caught [OF assms(1) assms(2) this, of reply] assms(2)
  show ?thesis
    by (auto simp: url_preview_failed_def split: prod.splits)
qed

theorem handle_rejects_non_http_witness:
  "urlPreviewEnabled (meta demo_env) \<and>
   previewCache demo_state (cache_key ''https://example.com/'' None) = None \<and>
   snd (fetch_preview
          (demo_env\<lparr>summaly := \<lambda>u opts. Inr (demo_summary\<lparr>summary_url := ''javascript:alert(1)''\<rparr>)\<rparr>)
          ''https://example.com/'' None) =
     Inr (demo_summary\<lparr>summary_url := ''javascript:alert(1)''\<rparr>) \<and>
   \<not> startsWith ''javascript:alert(1)'' ''http://'' \<and>
   \<not> startsWith ''javascript:alert(1)'' ''https://'' \<and>
   fst (handle
          (demo_env\<lparr>summaly := \<lambda>u opts. Inr (demo_summary\<lparr>summary_url := ''javascript:alert(1)''\<rparr>)\<rparr>)
          (preview_query ''https://example.com/'' None) demo_reply demo_state) =
     ErrorBody \<lparr>err_message = ''Failed to get preview'',
                err_code = ''URL_PREVIEW_FAILED'',
                err_id = ''09d01cb5-53b9-4856-82e5-38a50c290a3b''\<rparr> \<and>
   statusCode (fst (snd (handle
          (demo_env\<lparr>summaly := \<lambda>u opts. Inr (demo_summary\<lparr>summary_url := ''javascript:alert(1)''\<rparr>)\<rparr>)
          (preview_query ''https://example.com/'' None) demo_reply demo_state))) = 422 \<and>
   previewCache (snd (snd (handle
          (demo_env\<lparr>summaly := \<lambda>u opts. Inr (demo_summary\<lparr>summary_url := ''javascript:alert(1)''\<rparr>)\<rparr>)
          (preview_query ''https://example.com/'' None) demo_reply demo_state)))
       ''https://example.com/@undefined'' = None"
  using handle_rejects_non_http
          [where env = "demo_env\<lparr>summaly := \<lambda>u opts. Inr (demo_summary\<lparr>summary_url := ''javascript:alert(1)''\<rparr>)\<rparr>"
             and url = "''https://example.com/''" and lang = None
             and s = "demo_summary\<lparr>summary_url := ''javascript:alert(1)''\<rparr>"
             and reply = demo_reply and st = demo_state]
  by (auto simp: demo_env_def demo_state_def demo_summary_def cache_key_def fetch_preview_def
        fetchSummary_def startsWith_def Let_def split: prod.splits)

subsection \<open>A summary without a player descriptor\<close>

text \<open>
  C10. With the feature enabled and on a cache miss, when the fetch answers with a summary
  that has no player descriptor, the handler answers with the 422 failure response and
  writes nothing to the cache, whatever the canonical URL of the summary is, a valid
  http(s) URL included: reading the URL of the missing descriptor throws.
\<close>

theorem handle_missing_player:
  assumes "urlPreviewEnabled (meta env)"
    and "previewCache st (cache_key url lang) = None"
    and "snd (fetch_preview env url lang) = Inr s"
    and "player s = None"
  shows "case handle env (preview_query url lang) reply st of
           (b, r, st') \<Rightarrow>
             b = ErrorBody \<lparr>err_message = ''Failed to get preview'',
                            err_code = ''URL_PREVIEW_FAILED'',
                            err_id = ''09d01cb5-53b9-4856-82e5-38a50c290a3b''\<rparr> \<and>
             r = reply\<lparr>statusCode := 422,
                       headers := (headers reply)
                         (''Cache-Control'' \<mapsto> ''max-age=86400, immutable'')\<rparr> \<and>
             previewCache st' = previewCache st"
proof -
  from validate_no_player [OF assms(4)] obtain e where "validate s = Inl e" ..
  with assms(3)
  have "snd (fetch_preview env url lang) = Inl e \<or>
        (\<exists>s. snd (fetch_preview env url lang) = Inr s \<and> validate s = Inl e)"
    by blast
  from handle_caught [OF assms(1) assms(2) this, of reply]
  show ?thesis
    by (auto simp: url_preview_failed_def split: prod.splits)
qed

theorem handle_missing_player_witness:
  "urlPreviewEnabled (meta demo_env) \<and>
   previewCache demo_state (cache_key ''https://example.com/'' (Some ''en'')) = None \<and>
   snd (fetch_preview (demo_env\<lparr>summaly := \<lambda>u opts. Inr (demo_summary\<lparr>player := None\<rparr>)\<rparr>)
          ''https://example.com/'' (Some ''en'')) = Inr (demo_summary\<lparr>player := None\<rparr>) \<and>
   player (demo_summary\<lparr>player := None\<rparr>) = None \<and>
   startsWith (summary_url (demo_summary\<lparr>player := None\<rparr>)) ''https://'' \<and>
   fst (handle (demo_env\<lparr>summaly := \<lambda>u opts. Inr (demo_summary\<lparr>player := None\<rparr>)\<rparr>)
          (preview_query ''https://example.com/'' (Some ''en'')) demo_reply demo_state) =
     ErrorBody \<lparr>err_message = ''Failed to get preview'',
                err_code = ''URL_PREVIEW_FAILED'',
                err_id = ''09d01cb5-53b9-4856-82e5-38a50c290a3b''\<rparr> \<and>
   statusCode (fst (snd (handle
          (demo_env\<lparr>summaly := \<lambda>u opts. Inr (demo_summary\<lparr>player := None\<rparr>)\<rparr>)
          (preview_query ''https://example.com/'' (Some ''en'')) demo_reply demo_state))) = 422"
  using handle_missing_player
          [where env = "demo_env\<lparr>summaly := \<lambda>u opts. Inr (demo_summary\<lparr>player := None\<rparr>)\<rparr>"
             and url = "''https://example.com/''" and lang = "Some ''en''"
             and s = "demo_summary\<lparr>player := None\<rparr>"
             and reply = demo_reply and st = demo_state]
  by (auto simp: demo_env_def demo_state_def demo_summary_def cache_key_def fetch_preview_def
        fetchSummary_def startsWith_def Let_def split: prod.splits)

subsection \<open>Rewriting icon and thumbnail\<close>

text \<open>
  C9. With the feature enabled and on a cache miss, when the fetch answers with a summary
  \<open>s\<close> that passes validation, the summary that is returned and the summary that is
  stored under the cache key are the same, namely \<open>s\<close> with \<^verbatim>\<open>icon\<close> and
  \<^verbatim>\<open>thumbnail\<close> replaced by their images under \<^verbatim>\<open>wrap\<close>. A field that is absent in
  \<open>s\<close> is absent there, and a field that starts with neither \<^verbatim>\<open>http://\<close> nor
  \<^verbatim>\<open>https://\<close> is the same there.
\<close>

theorem handle_rewrites_icon_thumbnail:
  assumes "urlPreviewEnabled (meta env)"
    and "previewCache st (cache_key url lang) = None"
    and "snd (fetch_preview env url lang) = Inr s"
    and "validate s = Inr ()"
  shows "case handle env (preview_query url lang) reply st of
           (b, r, st') \<Rightarrow>
             (let s' = s\<lparr>icon := wrap env (icon s), thumbnail := wrap env (thumbnail s)\<rparr>
              in b = SummaryBody s' \<and>
                 previewCache st' (cache_key url lang) = Some s' \<and>
                 (icon s = None \<longrightarrow> icon s' = None) \<and>
                 (thumbnail s = None \<longrightarrow> thumbnail s' = None) \<and>
                 (\<forall>u. icon s = Some u \<and>
                        \<not> (startsWith u ''http://'' \<or> startsWith u ''https://'')
                        \<longrightarrow> icon s' = Some u) \<and>
                 (\<forall>u. thumbnail s = Some u \<and>
                        \<not> (startsWith u ''http://'' \<or> startsWith u ''https://'')
                        \<longrightarrow> thumbnail s' = Some u))"
  using handle_fetched [OF assms, of reply]
  by (auto simp: rewrite_def Let_def wrap_None wrap_not_http match_http_startsWith
        split: prod.splits)

theorem handle_rewrites_icon_thumbnail_witness:
  "urlPreviewEnabled (meta demo_env) \<and>
   previewCache demo_state (cache_key ''https://example.com/'' (Some ''en'')) = None \<and>
   snd (fetch_preview (demo_env\<lparr>summaly := \<lambda>u opts. Inr (demo_summary\<lparr>icon := None\<rparr>)\<rparr>)
          ''https://example.com/'' (Some ''en'')) = Inr (demo_summary\<lparr>icon := None\<rparr>) \<and>
   validate (demo_summary\<lparr>icon := None\<rparr>) = Inr () \<and>
   thumbnail (demo_summary\<lparr>icon := None\<rparr>) = Some ''/thumb.png'' \<and>
   fst (handle (demo_env\<lparr>summaly := \<lambda>u opts. Inr (demo_summary\<lparr>icon := None\<rparr>)\<rparr>)
          (preview_query ''https://example.com/'' (Some ''en'')) demo_reply demo_state) =
     SummaryBody (demo_summary\<lparr>icon := None, thumbnail := Some ''/thumb.png''\<rparr>) \<and>
   previewCache (snd (snd (handle
          (demo_env\<lparr>summaly := \<lambda>u opts. Inr (demo_summary\<lparr>icon := None\<rparr>)\<rparr>)
          (preview_query ''https://example.com/'' (Some ''en'')) demo_reply demo_state)))
       ''https://example.com/@en'' =
     Some (demo_summary\<lparr>icon := None, thumbnail := Some ''/thumb.png''\<rparr>)"
  using handle_rewrites_icon_thumbnail
          [where env = "demo_env\<lparr>summaly := \<lambda>u opts. Inr (demo_summary\<lparr>icon := None\<rparr>)\<rparr>"
             and url = "''https://example.com/''" and lang = "Some ''en''"
             and s = "demo_summary\<lparr>icon := None\<rparr>"
             and reply = demo_reply and st = demo_state]
  by (auto simp: demo_env_def demo_state_def demo_summary_def cache_key_def fetch_preview_def
        fetchSummary_def validate_def startsWith_def wrap_def match_http_def Let_def
        split: prod.splits)

subsection \<open>wrap\<close>

text \<open>
  C7. \<^verbatim>\<open>wrap\<close> is a function of the configuration and of its argument alone (it has no
  state to read or change), and: \<^verbatim>\<open>wrap(null)\<close> is \<^verbatim>\<open>null\<close>; a string that starts with
  neither \<^verbatim>\<open>http://\<close> nor \<^verbatim>\<open>https://\<close> is returned as it is; and when no image proxy
  endpoint is configured, a string that starts with one of them is turned into the
  configured media proxy path, followed by \<^verbatim>\<open>/preview.webp?\<close> and the query string built
  from the original URL as \<^verbatim>\<open>url\<close> and \<^verbatim>\<open>1\<close> as \<^verbatim>\<open>preview\<close>.
\<close>

theorem wrap_cases:
  "wrap env None = None \<and>
   (\<not> (startsWith u ''http://'' \<or> startsWith u ''https://'') \<longrightarrow>
      wrap env (Some u) = Some u) \<and>
   ((startsWith u ''http://'' \<or> startsWith u ''https://'') \<and>
    \<not> truthy (imgproxyURL (config env)) \<longrightarrow>
      wrap env (Some u) =
        Some (mediaProxy (config env) @ ''/preview.webp?'' @
              query env [(''url'', PStr u), (''preview'', PStr ''1'')]))"
  using wrap_None [of env] wrap_not_http [of u env] wrap_media_proxy [of u env]
  by (simp add: match_http_startsWith)

theorem wrap_cases_witness:
  "wrap demo_env None = None \<and>
   \<not> startsWith ''relative/path'' ''http://'' \<and>
   \<not> startsWith ''relative/path'' ''https://'' \<and>
   wrap demo_env (Some ''relative/path'') = Some ''relative/path'' \<and>
   startsWith ''https://example.com/a.png'' ''https://'' \<and>
   \<not> truthy (imgproxyURL (config demo_env)) \<and>
   wrap demo_env (Some ''https://example.com/a.png'') =
     Some ''https://media.example/proxy/preview.webp?url=https://example.com/a.png&preview=1''"
  using wrap_cases [where env = demo_env and u = "''relative/path''"]
        wrap_cases [where env = demo_env and u = "''https://example.com/a.png''"]
  by (simp add: demo_env_def startsWith_def)

subsection \<open>The cache key\<close>

text \<open>
  C5, as amended. The key is the URL, an \<^verbatim>\<open>@\<close> and the language tag, with nothing
  escaped. Equal URL and equal tag give equal keys; for one URL, two different tags that
  are present give different keys; and two different pairs of a URL and a present tag give
  different keys when neither tag contains an \<^verbatim>\<open>@\<close>.
\<close>

theorem cache_key_distinct:
  "(url1 = url2 \<and> lang1 = lang2 \<longrightarrow> cache_key url1 lang1 = cache_key url2 lang2) \<and>
   (l1 \<noteq> l2 \<longrightarrow> cache_key url (Some l1) \<noteq> cache_key url (Some l2)) \<and>
   (CHR ''@'' \<notin> set l1 \<and> CHR ''@'' \<notin> set l2 \<and> (u1, l1) \<noteq> (u2, l2) \<longrightarrow>
      cache_key u1 (Some l1) \<noteq> cache_key u2 (Some l2))"
  using split_at_last_separator [of "CHR ''@''" l1 l2 u1 u2]
  by (auto simp: cache_key_def)

theorem cache_key_distinct_witness:
  "cache_key ''https://example.com/'' (Some ''en'') =
     cache_key ''https://example.com/'' (Some ''en'') \<and>
   ''en'' \<noteq> ''ja-JP'' \<and>
   cache_key ''https://example.com/'' (Some ''en'') \<noteq>
     cache_key ''https://example.com/'' (Some ''ja-JP'') \<and>
   CHR ''@'' \<notin> set ''en'' \<and>
   (''https://example.com/@user'', ''en'') \<noteq> (''https://example.com/'', ''en'') \<and>
   cache_key ''https://example.com/@user'' (Some ''en'') \<noteq>
     cache_key ''https://example.com/'' (Some ''en'')"
proof -
  have a: "''en'' \<noteq> ''ja-JP''" by simp
  have b: "CHR ''@'' \<notin> set ''en''" by simp
  have c: "(''https://example.com/@user'', ''en'') \<noteq> (''https://example.com/'', ''en'')"
    by simp
  from a cache_key_distinct
         [where url = "''https://example.com/''" and ?l1.0 = "''en''" and ?l2.0 = "''ja-JP''"]
  have d: "cache_key ''https://example.com/'' (Some ''en'') \<noteq>
           cache_key ''https://example.com/'' (Some ''ja-JP'')"
    by blast
  from b c cache_key_distinct
         [where ?l1.0 = "''en''" and ?l2.0 = "''en''"
            and ?u1.0 = "''https://example.com/@user''" and ?u2.0 = "''https://example.com/''"]
  have e: "cache_key ''https://example.com/@user'' (Some ''en'') \<noteq>
           cache_key ''https://example.com/'' (Some ''en'')"
    by blast
  from a b c d e show ?thesis by blast
qed

text \<open>
  The claim as it stands says that any two different pairs have different keys. The pairs
  \<^verbatim>\<open>("https://example.com/@user", "en")\<close> and \<^verbatim>\<open>("https://example.com/", "user@en")\<close>
  differ and have the same key.
\<close>

theorem cache_key_collision:
  "(''https://example.com/@user'', Some ''en'') \<noteq> (''https://example.com/'', Some ''user@en'') \<and>
   cache_key ''https://example.com/@user'' (Some ''en'') =
     cache_key ''https://example.com/'' (Some ''user@en'')"
  by (simp add: cache_key_def)

text \<open>
  C6. The key of a request without a language tag is not built from the fallback locale:
  the template literal of line 116 turns the missing tag into the text
  \<^verbatim>\<open>undefined\<close>, whereas both fetch functions replace it by \<^verbatim>\<open>ja-JP\<close>. So the request
  without a tag and the request with the tag \<^verbatim>\<open>ja-JP\<close> make the same outbound call and
  have different keys; with the summary for \<^verbatim>\<open>ja-JP\<close> in the cache, the request without
  a tag misses it and fetches.
\<close>

theorem cache_key_absent_lang:
  "cache_key ''https://example.com/'' None = ''https://example.com/@undefined'' \<and>
   cache_key ''https://example.com/'' (Some ''ja-JP'') = ''https://example.com/@ja-JP'' \<and>
   cache_key ''https://example.com/'' None \<noteq> cache_key ''https://example.com/'' (Some ''ja-JP'') \<and>
   fetch_preview demo_env ''https://example.com/'' None =
     fetch_preview demo_env ''https://example.com/'' (Some ''ja-JP'') \<and>
   list_ex is_outbound_fetch
     (effects (snd (snd (handle demo_env (preview_query ''https://example.com/'' None) demo_reply
        (demo_state\<lparr>previewCache := [''https://example.com/@ja-JP'' \<mapsto> demo_summary]\<rparr>)))))"
  by (simp add: cache_key_def fetch_preview_def fetchSummary_def demo_env_def demo_state_def
        demo_summary_def handle_preview_query handle_checked_def handle_miss_def
        try_preview_def validate_def startsWith_def cache_get_def cache_set_def emit_def
        Let_def)

end
